theory Spec2Isabelle
  imports Main
begin

section \<open>String primitives of the source language\<close>

text \<open>
  \<^verbatim>\<open>s.startsWith(p)\<close> and \<^verbatim>\<open>s.includes(sub)\<close> of JavaScript, on strings as lists of
  characters. Every literal the program passes to them is ASCII.
\<close>

fun startsWith :: "string \<Rightarrow> string \<Rightarrow> bool" where
  "startsWith s [] = True"
| "startsWith [] (c # cs) = False"
| "startsWith (x # xs) (c # cs) = (x = c \<and> startsWith xs cs)"

fun str_includes :: "string \<Rightarrow> string \<Rightarrow> bool" where
  "str_includes [] sub = (sub = [])"
| "str_includes (x # xs) sub = (startsWith (x # xs) sub \<or> str_includes xs sub)"

section \<open>The request gateway (middleware.ts)\<close>

subsection \<open>Route tables and classification\<close>

definition protectedRoutes :: "string list" where
  "protectedRoutes = [''/dashboard'', ''/email'', ''/diary'', ''/records'']"

definition publicRoutes :: "string list" where
  "publicRoutes = [''/'', ''/login'', ''/register'', ''/auth'']"

definition authRoutes :: "string list" where
  "authRoutes = [''/login'', ''/register'']"

definition isProtectedRoute :: "string \<Rightarrow> bool" where
  "isProtectedRoute pathname = list_ex (\<lambda>route. startsWith pathname route) protectedRoutes"

definition isPublicRoute :: "string \<Rightarrow> bool" where
  "isPublicRoute pathname =
     list_ex (\<lambda>route. if route = ''/'' then pathname = ''/'' else startsWith pathname route)
       publicRoutes"

definition isAuthRoute :: "string \<Rightarrow> bool" where
  "isAuthRoute pathname = list_ex (\<lambda>route. startsWith pathname route) authRoutes"

text \<open>
  The guard at the head of \<^verbatim>\<open>middleware\<close>: static files and API routes are passed
  through before anything else is evaluated.
\<close>

definition skipsMiddleware :: "string \<Rightarrow> bool" where
  "skipsMiddleware pathname =
     (startsWith pathname ''/_next/'' \<or> startsWith pathname ''/api/'' \<or>
      str_includes pathname ''.'' \<or> startsWith pathname ''/favicon.ico'')"

subsection \<open>Responses\<close>

text \<open>
  A \<^verbatim>\<open>NextResponse\<close> is either a continuation (\<^verbatim>\<open>NextResponse.next()\<close>, no redirect
  target) or a redirect to a URL; it carries the cookies written and the cookies deleted
  on it. A URL is kept as its path and its search parameters: the origin is always the
  one of the request.
\<close>

record url =
  url_pathname :: string
  searchParams :: "(string \<times> string) list"

record response =
  redirect_to :: "url option"
  cookies_set :: "(string \<times> string) list"
  cookies_deleted :: "string list"

definition NextResponse_next :: response where
  "NextResponse_next = \<lparr>redirect_to = None, cookies_set = [], cookies_deleted = []\<rparr>"

definition NextResponse_redirect :: "url \<Rightarrow> response" where
  "NextResponse_redirect u = \<lparr>redirect_to = Some u, cookies_set = [], cookies_deleted = []\<rparr>"

definition cookies_delete :: "string \<Rightarrow> response \<Rightarrow> response" where
  "cookies_delete name r = r\<lparr>cookies_deleted := cookies_deleted r @ [name]\<rparr>"

text \<open>
  \<^verbatim>\<open>createRedirect(url, request, destination?)\<close>: the optional destination is kept as
  the \<^verbatim>\<open>redirect\<close> search parameter when it is a non-empty string other than the root.
\<close>

definition createRedirect :: "string \<Rightarrow> string option \<Rightarrow> response" where
  "createRedirect target destination =
     (let redirectUrl = \<lparr>url_pathname = target, searchParams = []\<rparr>
      in NextResponse_redirect
           (case destination of
              None \<Rightarrow> redirectUrl
            | Some d \<Rightarrow>
                if d \<noteq> [] \<and> d \<noteq> ''/''
                then redirectUrl\<lparr>searchParams := [(''redirect'', d)]\<rparr>
                else redirectUrl))"

subsection \<open>The identity service as the gateway sees it\<close>

text \<open>
  The server-side client of the identity service is external. A call to it either rejects
  (throws) or resolves to a reply \<^verbatim>\<open>{ data: { session }, error }\<close>; while answering, the
  client may write cookies on the response through the callbacks it was given. The
  service is a state: what it answers, and how many refresh calls it has received.
\<close>

record supa_session =
  access_token :: string
  refresh_token :: string
  expires_at :: "int option"
  session_user :: "string option"

record auth_reply =
  reply_session :: "supa_session option"
  reply_error :: "string option"
  reply_cookies :: "(string \<times> string) list"

datatype 'a outcome = Rejected | Resolved 'a

record identity_service =
  session_reply :: "auth_reply outcome"
  refresh_reply :: "auth_reply outcome"
  refresh_calls :: nat

definition auth_getSession :: "identity_service \<Rightarrow> auth_reply outcome \<times> identity_service" where
  "auth_getSession svc = (session_reply svc, svc)"

definition auth_refreshSession :: "identity_service \<Rightarrow> auth_reply outcome \<times> identity_service" where
  "auth_refreshSession svc = (refresh_reply svc, svc\<lparr>refresh_calls := Suc (refresh_calls svc)\<rparr>)"

subsection \<open>Calls that may throw\<close>

text \<open>
  The gateway calls into the framework and the runtime: \<^verbatim>\<open>NextResponse.next()\<close>, the same
  with the request headers, \<^verbatim>\<open>createServerClient\<close>, \<^verbatim>\<open>createRedirect\<close> with its arguments
  (which builds a URL and a redirect response), \<^verbatim>\<open>cookies.delete\<close> with the cookie name,
  \<^verbatim>\<open>console.log\<close> and \<^verbatim>\<open>console.error\<close>. The list \<open>faults\<close> names the calls that throw in
  the execution at hand, wherever they are made. An exception is a thrown call or the
  rejection of a call to the identity service.
\<close>

datatype call =
    Next | NextWithRequest | CreateServerClient
  | CreateRedirect string "string option"
  | CookiesDelete string
  | ConsoleLog | ConsoleError

datatype exn = Thrown call | Rejection

text \<open>
  A piece of the gateway acts on the identity service and either throws (\<open>Inl\<close>) or
  returns a value (\<open>Inr\<close>).
\<close>

type_synonym 'a action = "identity_service \<Rightarrow> (exn + 'a) \<times> identity_service"

definition returns :: "'a \<Rightarrow> 'a action" where
  "returns v svc = (Inr v, svc)"

definition attempt :: "call list \<Rightarrow> call \<Rightarrow> 'a \<Rightarrow> 'a action" where
  "attempt faults c v svc = (if c \<in> set faults then (Inl (Thrown c), svc) else (Inr v, svc))"

definition await :: "(identity_service \<Rightarrow> 'a outcome \<times> identity_service) \<Rightarrow> 'a action" where
  "await request svc =
     (case request svc of
        (Rejected, svc1) \<Rightarrow> (Inl Rejection, svc1)
      | (Resolved r, svc1) \<Rightarrow> (Inr r, svc1))"

definition and_then :: "'a action \<Rightarrow> ('a \<Rightarrow> 'b action) \<Rightarrow> 'b action" where
  "and_then m f svc = (case m svc of (Inl e, svc1) \<Rightarrow> (Inl e, svc1) | (Inr v, svc1) \<Rightarrow> f v svc1)"

definition try_catch :: "'a action \<Rightarrow> (exn \<Rightarrow> 'a action) \<Rightarrow> 'a action" where
  "try_catch m handler svc =
     (case m svc of (Inl e, svc1) \<Rightarrow> handler e svc1 | (Inr v, svc1) \<Rightarrow> (Inr v, svc1))"

subsection \<open>Session validation\<close>

record session_result =
  sr_session :: "supa_session option"
  sr_response :: response
  sr_needsCleanup :: bool

text \<open>
  The \<^verbatim>\<open>try\<close> block of \<^verbatim>\<open>getSession(request)\<close>. The second argument is \<^verbatim>\<open>Date.now()\<close> in
  milliseconds. The cookies the client writes while it answers land on \<^verbatim>\<open>response\<close>.
\<close>

definition getSession_try :: "call list \<Rightarrow> int \<Rightarrow> session_result action" where
  "getSession_try faults date_now =
     and_then (attempt faults NextWithRequest NextResponse_next) (\<lambda>response0.
     and_then (attempt faults CreateServerClient ()) (\<lambda>_.
     and_then (await auth_getSession) (\<lambda>r.
       (let response = response0\<lparr>cookies_set := reply_cookies r\<rparr> in
        if reply_error r \<noteq> None then
          and_then (attempt faults ConsoleError ()) (\<lambda>_.
            returns \<lparr>sr_session = None, sr_response = response, sr_needsCleanup = True\<rparr>)
        else
          (case reply_session r of
             None \<Rightarrow>
               returns \<lparr>sr_session = None, sr_response = response, sr_needsCleanup = False\<rparr>
           | Some session \<Rightarrow>
               (let now = date_now div 1000;
                    expirationBuffer = 5 * 60
                in if (case expires_at session of
                         None \<Rightarrow> False
                       | Some e \<Rightarrow> e \<noteq> 0 \<and> e < now + expirationBuffer)
                   then
                     and_then (attempt faults ConsoleLog ()) (\<lambda>_.
                     and_then (await auth_refreshSession) (\<lambda>rr.
                       (let response2 =
                              response\<lparr>cookies_set := cookies_set response @ reply_cookies rr\<rparr>
                        in if reply_error rr \<noteq> None \<or> reply_session rr = None then
                             and_then (attempt faults ConsoleError ()) (\<lambda>_.
                               returns \<lparr>sr_session = None, sr_response = response2,
                                        sr_needsCleanup = True\<rparr>)
                           else
                             and_then (attempt faults ConsoleLog ()) (\<lambda>_.
                               returns \<lparr>sr_session = reply_session rr, sr_response = response2,
                                        sr_needsCleanup = False\<rparr>))))
                   else if session_user session = None then
                     and_then (attempt faults ConsoleError ()) (\<lambda>_.
                       returns \<lparr>sr_session = None, sr_response = response,
                                sr_needsCleanup = True\<rparr>)
                   else
                     returns \<lparr>sr_session = Some session, sr_response = response,
                              sr_needsCleanup = False\<rparr>))))))"

text \<open>
  \<^verbatim>\<open>getSession(request)\<close>: whatever the \<^verbatim>\<open>try\<close> block throws ends in the \<^verbatim>\<open>catch\<close> block,
  which logs, answers with a fresh continuation and asks for cleanup. What the \<^verbatim>\<open>catch\<close>
  block itself throws leaves the function.
\<close>

definition getSession :: "call list \<Rightarrow> int \<Rightarrow> session_result action" where
  "getSession faults date_now =
     try_catch (getSession_try faults date_now) (\<lambda>error.
       and_then (attempt faults ConsoleError ()) (\<lambda>_.
       and_then (attempt faults Next NextResponse_next) (\<lambda>fresh.
         returns \<lparr>sr_session = None, sr_response = fresh, sr_needsCleanup = True\<rparr>)))"

text \<open>Whether something is thrown inside the \<^verbatim>\<open>try\<close> block of \<^verbatim>\<open>getSession\<close>.\<close>

definition getSession_throws :: "call list \<Rightarrow> int \<Rightarrow> identity_service \<Rightarrow> bool" where
  "getSession_throws faults date_now svc = isl (fst (getSession_try faults date_now svc))"

subsection \<open>The per-request decision\<close>

text \<open>The \<^verbatim>\<open>try\<close> block of \<^verbatim>\<open>middleware\<close>, for the path of the request.\<close>

definition middleware_try :: "call list \<Rightarrow> int \<Rightarrow> string \<Rightarrow> response action" where
  "middleware_try faults date_now pathname =
     and_then (getSession faults date_now) (\<lambda>sr.
       (let isAuthenticated = (sr_session sr \<noteq> None) in
        if sr_needsCleanup sr \<and> \<not> isAuthenticated then
          (if isProtectedRoute pathname then
             and_then (attempt faults (CreateRedirect ''/login'' (Some pathname))
                         (createRedirect ''/login'' (Some pathname))) (\<lambda>cleanupResponse.
             and_then (attempt faults (CookiesDelete ''sb-access-token'')
                         (cookies_delete ''sb-access-token'' cleanupResponse)) (\<lambda>cleanupResponse.
             and_then (attempt faults (CookiesDelete ''sb-refresh-token'')
                         (cookies_delete ''sb-refresh-token'' cleanupResponse)) (\<lambda>cleanupResponse.
             and_then (attempt faults ConsoleLog ()) (\<lambda>_.
               returns cleanupResponse))))
           else
             and_then (attempt faults Next NextResponse_next) (\<lambda>cleanupResponse.
             and_then (attempt faults (CookiesDelete ''sb-access-token'')
                         (cookies_delete ''sb-access-token'' cleanupResponse)) (\<lambda>cleanupResponse.
             and_then (attempt faults (CookiesDelete ''sb-refresh-token'')
                         (cookies_delete ''sb-refresh-token'' cleanupResponse)) (\<lambda>cleanupResponse.
               returns cleanupResponse))))
        else if isProtectedRoute pathname then
          (if \<not> isAuthenticated then
             and_then (attempt faults ConsoleLog ()) (\<lambda>_.
               attempt faults (CreateRedirect ''/login'' (Some pathname))
                 (createRedirect ''/login'' (Some pathname)))
           else
             and_then (attempt faults ConsoleLog ()) (\<lambda>_. returns (sr_response sr)))
        else if isAuthRoute pathname \<and> isAuthenticated then
          and_then (attempt faults ConsoleLog ()) (\<lambda>_.
            attempt faults (CreateRedirect ''/dashboard'' None) (createRedirect ''/dashboard'' None))
        else if isPublicRoute pathname then attempt faults Next NextResponse_next
        else attempt faults Next NextResponse_next))"

text \<open>
  \<^verbatim>\<open>middleware(request)\<close>: the bypass guard, which stands before the \<^verbatim>\<open>try\<close> block, the
  \<^verbatim>\<open>try\<close> block, and the \<^verbatim>\<open>catch\<close> block, which logs and answers by the kind of path.
  \<open>Inl\<close> is an error that leaves the gateway.
\<close>

definition middleware :: "call list \<Rightarrow> int \<Rightarrow> string \<Rightarrow> response action" where
  "middleware faults date_now pathname =
     (if skipsMiddleware pathname then attempt faults Next NextResponse_next
      else
        try_catch (middleware_try faults date_now pathname) (\<lambda>error.
          and_then (attempt faults ConsoleError ()) (\<lambda>_.
            if isProtectedRoute pathname
            then attempt faults (CreateRedirect ''/login'' (Some pathname))
                   (createRedirect ''/login'' (Some pathname))
            else attempt faults Next NextResponse_next)))"

text \<open>Whether something is thrown inside the \<^verbatim>\<open>try\<close> block of \<^verbatim>\<open>middleware\<close>.\<close>

definition middleware_throws :: "call list \<Rightarrow> int \<Rightarrow> string \<Rightarrow> identity_service \<Rightarrow> bool" where
  "middleware_throws faults date_now pathname svc =
     (\<not> skipsMiddleware pathname \<and> isl (fst (middleware_try faults date_now pathname svc)))"

section \<open>The session context (lib/auth.tsx)\<close>

text \<open>
  An error value as \<^verbatim>\<open>handleAuthError\<close> inspects it: an \<^verbatim>\<open>AuthError\<close> of the identity
  service has a message and a \<^verbatim>\<open>status\<close> property (possibly undefined), a plain \<^verbatim>\<open>Error\<close>
  has a message only.
\<close>

datatype js_error = AuthError string "nat option" | PlainError string

fun error_message :: "js_error \<Rightarrow> string" where
  "error_message (AuthError m st) = m"
| "error_message (PlainError m) = m"

text \<open>
  The \<^verbatim>\<open>code\<close> of a failure. \<open>StatusCode n\<close> stands for \<^verbatim>\<open>n.toString()\<close>, the other
  constructors for the string literals of the source.
\<close>

datatype auth_code =
    StatusCode nat | unknown_error | invalid_credentials | user_exists
  | weak_password | email_not_confirmed

record auth_failure =
  failure_message :: string
  failure_code :: auth_code

type_synonym 'a auth_response = "auth_failure + 'a"

definition handleAuthError :: "js_error \<Rightarrow> auth_failure" where
  "handleAuthError err =
     (let message = error_message err;
          code = (case err of
                    AuthError m (Some st) \<Rightarrow> StatusCode st
                  | AuthError m None \<Rightarrow> unknown_error
                  | PlainError m \<Rightarrow> unknown_error)
      in if str_includes message ''Invalid login credentials''
         then \<lparr>failure_message = ''Invalid email or password'',
               failure_code = invalid_credentials\<rparr>
         else if str_includes message ''User already registered''
         then \<lparr>failure_message = ''An account with this email already exists'',
               failure_code = user_exists\<rparr>
         else if str_includes message ''Password should be''
         then \<lparr>failure_message = ''Password must be at least 6 characters long'',
               failure_code = weak_password\<rparr>
         else if str_includes message ''Email not confirmed''
         then \<lparr>failure_message = ''Please check your email and click the confirmation link'',
               failure_code = email_not_confirmed\<rparr>
         else \<lparr>failure_message = message, failure_code = code\<rparr>)"

text \<open>
  The state \<^verbatim>\<open>signOut\<close> works on: the three state cells of the provider and, in a browser,
  the cookie jar behind \<^verbatim>\<open>document.cookie\<close> (\<open>None\<close> where \<^verbatim>\<open>window\<close> is undefined).
  Assigning a cookie with an expiry in 1970 removes it from the jar.
\<close>

record ('u, 's) auth_context =
  ctx_user :: "'u option"
  ctx_session :: "'s option"
  ctx_loading :: bool
  document_cookie :: "(string \<times> string) list option"

definition expire_cookie :: "string \<Rightarrow> (string \<times> string) list \<Rightarrow> (string \<times> string) list" where
  "expire_cookie name jar = filter (\<lambda>(n, v). n \<noteq> name) jar"

text \<open>What the remote call \<^verbatim>\<open>supabase.auth.signOut()\<close> does: throw, or resolve to \<^verbatim>\<open>{ error }\<close>.\<close>

datatype remote_signOut = SignOutThrows js_error | SignOutResolves "js_error option"

definition signOut ::
  "remote_signOut \<Rightarrow> ('u, 's) auth_context \<Rightarrow> unit auth_response \<times> ('u, 's) auth_context" where
  "signOut remote ctx =
     (let ctx1 = ctx\<lparr>ctx_loading := True\<rparr> in
      case remote of
        SignOutThrows e \<Rightarrow> (Inl (handleAuthError e), ctx1\<lparr>ctx_loading := False\<rparr>)
      | SignOutResolves (Some e) \<Rightarrow> (Inl (handleAuthError e), ctx1\<lparr>ctx_loading := False\<rparr>)
      | SignOutResolves None \<Rightarrow>
          (let ctx2 = ctx1\<lparr>ctx_user := None, ctx_session := None\<rparr>;
               ctx3 = (case document_cookie ctx2 of
                         None \<Rightarrow> ctx2
                       | Some jar \<Rightarrow>
                           ctx2\<lparr>document_cookie :=
                                   Some (expire_cookie ''sb-refresh-token''
                                           (expire_cookie ''sb-access-token'' jar))\<rparr>)
           in (Inr (), ctx3\<lparr>ctx_loading := False\<rparr>)))"

section \<open>The data access layer (lib/database.ts)\<close>

subsection \<open>Rows and errors\<close>

text \<open>
  Rows of the tables the claims are about. Timestamps are ISO strings. Of a child only the
  columns the module reads are kept.
\<close>

record user_row =
  u_id :: string
  u_email :: string
  u_name :: string
  u_assigned_class :: "string option"
  u_created_at :: string
  u_updated_at :: string

text \<open>\<^verbatim>\<open>UserProfileUpdate\<close>: every field optional, \<open>None\<close> for a key that is absent.\<close>

record user_profile_update =
  upd_email :: "string option"
  upd_name :: "string option"
  upd_assigned_class :: "string option"
  upd_updated_at :: "string option"

record child_row =
  child_id :: string
  child_name :: string
  child_class_id :: string

text \<open>\<^verbatim>\<open>GenerationHistoryInsert\<close>, and the stored row that adds id and timestamps.\<close>

record generation_history_insert =
  gh_user_id :: string
  gh_type :: string
  gh_input :: string
  gh_output :: string
  gh_model_used :: "string option"
  gh_tokens_used :: "nat option"

record generation_history_row = generation_history_insert +
  gh_id :: string
  gh_created_at :: string
  gh_updated_at :: string

text \<open>
  The messages of the module are Japanese string literals; each constructor stands for
  one of them, in the order of the source.
\<close>

datatype message =
    ValidUserIdRequired | ProfileFetchFailed | ProfileFetchUnexpected
  | UpdateDataRequired | InvalidClass | ProfileUpdateFailed | ProfileUpdateUnexpected
  | ChildrenFetchFailed | ChildrenFetchUnexpected
  | GenerationDataRequired | RequiredFieldsMissing | InvalidGenerationType
  | HistorySaveFailed | HistorySaveUnexpected
  | AuthenticationRequired | ProfileNotFound
  | PermissionDenied | OtherUsersProfile | ClassNotAccessible | OtherUsersHistory

datatype db_error =
    DatabaseError message "string option"
  | AuthenticationError message
  | PermissionError message

subsection \<open>The backing service as the module sees it\<close>

text \<open>
  The client of the persistence service is external. It is a state: what
  \<^verbatim>\<open>auth.getUser()\<close> answers, the tables, a failure mode of the store (every table request is
  answered with an error of the given code, or throws), the supply of generated ids, and
  the log of the requests received. A table request answers with data, with an error
  carrying a code, or throws. A \<^verbatim>\<open>.single()\<close> request over anything but exactly one row
  answers with the error code \<^verbatim>\<open>PGRST116\<close>.
\<close>

datatype store_failure = ErrorReply string | Throws

datatype 'a reply = Data 'a | Error string | Raised

datatype request =
    AuthGetUser
  | UsersSelect string
  | UsersUpdate string user_profile_update
  | ChildrenSelect "string option"
  | HistoryInsert generation_history_insert string string

record backend =
  getUser_reply :: "(string option \<times> string option) outcome"
  users :: "user_row list"
  children :: "child_row list"
  generation_history :: "generation_history_row list"
  store_down :: "store_failure option"
  fresh_id :: "nat \<Rightarrow> string"
  requests :: "request list"

definition received :: "request \<Rightarrow> backend \<Rightarrow> backend" where
  "received rq b = b\<lparr>requests := requests b @ [rq]\<rparr>"

definition single :: "'a list \<Rightarrow> 'a reply" where
  "single rows = (case rows of [r] \<Rightarrow> Data r | _ \<Rightarrow> Error ''PGRST116'')"

definition failing :: "store_failure \<Rightarrow> 'a reply" where
  "failing f = (case f of ErrorReply c \<Rightarrow> Error c | Throws \<Rightarrow> Raised)"

definition users_select_single :: "string \<Rightarrow> backend \<Rightarrow> user_row reply \<times> backend" where
  "users_select_single uid b =
     ((case store_down b of
         Some f \<Rightarrow> failing f
       | None \<Rightarrow> single (filter (\<lambda>r. u_id r = uid) (users b))),
      received (UsersSelect uid) b)"

definition apply_update :: "user_profile_update \<Rightarrow> user_row \<Rightarrow> user_row" where
  "apply_update p r =
     r\<lparr>u_email := (case upd_email p of Some v \<Rightarrow> v | None \<Rightarrow> u_email r),
       u_name := (case upd_name p of Some v \<Rightarrow> v | None \<Rightarrow> u_name r),
       u_assigned_class :=
         (case upd_assigned_class p of Some v \<Rightarrow> Some v | None \<Rightarrow> u_assigned_class r),
       u_updated_at := (case upd_updated_at p of Some v \<Rightarrow> v | None \<Rightarrow> u_updated_at r)\<rparr>"

definition users_update_single ::
  "string \<Rightarrow> user_profile_update \<Rightarrow> backend \<Rightarrow> user_row reply \<times> backend" where
  "users_update_single uid payload b =
     (case store_down b of
        Some f \<Rightarrow> (failing f, received (UsersUpdate uid payload) b)
      | None \<Rightarrow>
          (let users' = map (\<lambda>r. if u_id r = uid then apply_update payload r else r) (users b)
           in (single (filter (\<lambda>r. u_id r = uid) users'),
               received (UsersUpdate uid payload) (b\<lparr>users := users'\<rparr>))))"

text \<open>
  \<^verbatim>\<open>from('children').select('*')\<close> with an optional \<^verbatim>\<open>eq('class_id', _)\<close> and
  \<^verbatim>\<open>order('name')\<close>: the table is kept in the order the store gives for the name column.
\<close>

definition children_select :: "string option \<Rightarrow> backend \<Rightarrow> child_row list reply \<times> backend" where
  "children_select class_filter b =
     ((case store_down b of
         Some f \<Rightarrow> failing f
       | None \<Rightarrow>
           Data (case class_filter of
                   None \<Rightarrow> children b
                 | Some c \<Rightarrow> filter (\<lambda>r. child_class_id r = c) (children b))),
      received (ChildrenSelect class_filter) b)"

definition history_insert ::
  "generation_history_insert \<Rightarrow> string \<Rightarrow> string \<Rightarrow> backend \<Rightarrow>
     generation_history_row reply \<times> backend" where
  "history_insert d created updated b =
     (case store_down b of
        Some f \<Rightarrow> (failing f, received (HistoryInsert d created updated) b)
      | None \<Rightarrow>
          (let row = generation_history_insert.extend d
                       (generation_history_row.fields
                          (fresh_id b (length (generation_history b))) created updated)
           in (Data row,
               received (HistoryInsert d created updated)
                 (b\<lparr>generation_history := generation_history b @ [row]\<rparr>))))"

subsection \<open>The operations\<close>

text \<open>
  \<^verbatim>\<open>getCurrentUser()\<close> of lib/supabase.ts: the id of the user \<^verbatim>\<open>auth.getUser()\<close> answers
  with, and nobody when it answers with an error or throws.
\<close>

definition getCurrentUser :: "backend \<Rightarrow> string option \<times> backend" where
  "getCurrentUser b =
     ((case getUser_reply b of
         Rejected \<Rightarrow> None
       | Resolved (user, err) \<Rightarrow> (if err \<noteq> None then None else user)),
      received AuthGetUser b)"

text \<open>
  Each operation returns \<open>Inl\<close> of the error it throws or \<open>Inr\<close> of its result, with the
  backend as the calls made so far have left it. An exception that is none of the three
  error classes is replaced by the operation's generic \<open>DatabaseError\<close> in its \<^verbatim>\<open>catch\<close>
  block.
\<close>

definition getUserProfile :: "string \<Rightarrow> backend \<Rightarrow> (db_error + user_row option) \<times> backend" where
  "getUserProfile userId b =
     (if userId = [] then (Inl (DatabaseError ValidUserIdRequired None), b)
      else
        (case getCurrentUser b of
           (None, b1) \<Rightarrow> (Inl (AuthenticationError AuthenticationRequired), b1)
         | (Some currentUser, b1) \<Rightarrow>
             (case users_select_single userId b1 of
                (Error code, b2) \<Rightarrow>
                  (if code = ''PGRST116'' then (Inr None, b2)
                   else (Inl (DatabaseError ProfileFetchFailed (Some code)), b2))
              | (Raised, b2) \<Rightarrow> (Inl (DatabaseError ProfileFetchUnexpected None), b2)
              | (Data row, b2) \<Rightarrow> (Inr (Some row), b2))))"

text \<open>
  Truthiness of an optional string: defined and not empty.
\<close>

definition truthy :: "string option \<Rightarrow> bool" where
  "truthy v = (case v of None \<Rightarrow> False | Some s \<Rightarrow> s \<noteq> [])"

definition validClasses :: "string list" where
  "validClasses = [''koala'', ''bear'', ''giraffe'']"

definition update_keys :: "user_profile_update \<Rightarrow> string list" where
  "update_keys p =
     (if upd_email p \<noteq> None then [''email''] else []) @
     (if upd_name p \<noteq> None then [''name''] else []) @
     (if upd_assigned_class p \<noteq> None then [''assigned_class''] else []) @
     (if upd_updated_at p \<noteq> None then [''updated_at''] else [])"

text \<open>The second argument of the next two operations is \<^verbatim>\<open>new Date().toISOString()\<close>.\<close>

definition updateUserProfile ::
  "string \<Rightarrow> string \<Rightarrow> user_profile_update \<Rightarrow> backend \<Rightarrow> (db_error + user_row) \<times> backend" where
  "updateUserProfile now userId updates b =
     (if userId = [] then (Inl (DatabaseError ValidUserIdRequired None), b)
      else if length (update_keys updates) = 0
      then (Inl (DatabaseError UpdateDataRequired None), b)
      else
        (case getCurrentUser b of
           (None, b1) \<Rightarrow> (Inl (AuthenticationError AuthenticationRequired), b1)
         | (Some currentUser, b1) \<Rightarrow>
             (if currentUser \<noteq> userId then (Inl (PermissionError OtherUsersProfile), b1)
              else if truthy (upd_assigned_class updates) \<and>
                      (case upd_assigned_class updates of
                         None \<Rightarrow> False
                       | Some c \<Rightarrow> c \<notin> set validClasses)
              then (Inl (DatabaseError InvalidClass None), b1)
              else
                (case users_update_single userId (updates\<lparr>upd_updated_at := Some now\<rparr>) b1 of
                   (Error code, b2) \<Rightarrow> (Inl (DatabaseError ProfileUpdateFailed (Some code)), b2)
                 | (Raised, b2) \<Rightarrow> (Inl (DatabaseError ProfileUpdateUnexpected None), b2)
                 | (Data row, b2) \<Rightarrow> (Inr row, b2)))))"

text \<open>
  \<^verbatim>\<open>getChildren(classId?)\<close>: \<open>None\<close> is the call without argument. The query on the
  children table is built first and sent only where it is awaited, after the class check.
\<close>

definition getChildren :: "string option \<Rightarrow> backend \<Rightarrow> (db_error + child_row list) \<times> backend" where
  "getChildren classId b =
     (case getCurrentUser b of
        (None, b1) \<Rightarrow> (Inl (AuthenticationError AuthenticationRequired), b1)
      | (Some currentUser, b1) \<Rightarrow>
          (case getUserProfile currentUser b1 of
             (Inl e, b2) \<Rightarrow> (Inl e, b2)
           | (Inr None, b2) \<Rightarrow> (Inl (AuthenticationError ProfileNotFound), b2)
           | (Inr (Some userProfile), b2) \<Rightarrow>
               (let query = (\<lambda>class_filter.
                       case children_select class_filter b2 of
                         (Error code, b3) \<Rightarrow>
                           (Inl (DatabaseError ChildrenFetchFailed (Some code)), b3)
                       | (Raised, b3) \<Rightarrow> (Inl (DatabaseError ChildrenFetchUnexpected None), b3)
                       | (Data rows, b3) \<Rightarrow> (Inr rows, b3))
                in if truthy classId then
                     (if truthy (u_assigned_class userProfile) \<and>
                         u_assigned_class userProfile \<noteq> classId
                      then (Inl (PermissionError ClassNotAccessible), b2)
                      else query classId)
                   else if truthy (u_assigned_class userProfile)
                   then query (u_assigned_class userProfile)
                   else query None)))"

definition validTypes :: "string list" where
  "validTypes = [''email'', ''diary'', ''record'']"

definition saveGenerationHistory ::
  "string \<Rightarrow> generation_history_insert \<Rightarrow> backend \<Rightarrow>
     (db_error + generation_history_row) \<times> backend" where
  "saveGenerationHistory now d b =
     (if gh_user_id d = [] \<or> gh_type d = [] \<or> gh_input d = [] \<or> gh_output d = []
      then (Inl (DatabaseError RequiredFieldsMissing None), b)
      else if gh_type d \<notin> set validTypes
      then (Inl (DatabaseError InvalidGenerationType None), b)
      else
        (case getCurrentUser b of
           (None, b1) \<Rightarrow> (Inl (AuthenticationError AuthenticationRequired), b1)
         | (Some currentUser, b1) \<Rightarrow>
             (if currentUser \<noteq> gh_user_id d then (Inl (PermissionError OtherUsersHistory), b1)
              else
                (case history_insert d now now b1 of
                   (Error code, b2) \<Rightarrow> (Inl (DatabaseError HistorySaveFailed (Some code)), b2)
                 | (Raised, b2) \<Rightarrow> (Inl (DatabaseError HistorySaveUnexpected None), b2)
                 | (Data row, b2) \<Rightarrow> (Inr row, b2)))))"

section \<open>Concrete scenarios\<close>

abbreviation live_session :: supa_session where
  "live_session \<equiv>
     \<lparr>access_token = ''at-1'', refresh_token = ''rt-1'',
      expires_at = Some 1700003600, session_user = Some ''user-1''\<rparr>"

abbreviation userless_session :: supa_session where
  "userless_session \<equiv>
     \<lparr>access_token = ''at-1'', refresh_token = ''rt-1'',
      expires_at = Some 1700003600, session_user = None\<rparr>"

abbreviation service_answering :: "supa_session option \<Rightarrow> string option \<Rightarrow> identity_service" where
  "service_answering s e \<equiv>
     \<lparr>session_reply = Resolved \<lparr>reply_session = s, reply_error = e, reply_cookies = []\<rparr>,
      refresh_reply = Rejected, refresh_calls = 0\<rparr>"


lemmas action_defs = returns_def attempt_def await_def and_then_def try_catch_def

lemmas gateway_eval =
  isProtectedRoute_def protectedRoutes_def isPublicRoute_def publicRoutes_def
  isAuthRoute_def authRoutes_def skipsMiddleware_def
  getSession_def getSession_try_def getSession_throws_def
  auth_getSession_def auth_refreshSession_def
  middleware_def middleware_try_def middleware_throws_def
  returns_def attempt_def await_def and_then_def try_catch_def
  createRedirect_def NextResponse_redirect_def NextResponse_next_def
  cookies_delete_def Let_def

abbreviation signed_in_context :: "(string, string) auth_context" where
  "signed_in_context \<equiv>
     \<lparr>ctx_user = Some ''user-1'', ctx_session = Some ''at-1'', ctx_loading = False,
      document_cookie = Some [(''sb-access-token'', ''at-1''), (''sb-refresh-token'', ''rt-1'')]\<rparr>"

abbreviation koala_teacher :: user_row where
  "koala_teacher \<equiv>
     \<lparr>u_id = ''user-1'', u_email = ''aoi@example.jp'', u_name = ''Aoi'',
      u_assigned_class = Some ''koala'', u_created_at = ''2024-04-01T00:00:00.000Z'',
      u_updated_at = ''2024-04-01T00:00:00.000Z''\<rparr>"

abbreviation nursery :: backend where
  "nursery \<equiv>
     \<lparr>getUser_reply = Resolved (Some ''user-1'', None),
      users = [koala_teacher],
      children = [\<lparr>child_id = ''c1'', child_name = ''Haru'', child_class_id = ''koala''\<rparr>,
                  \<lparr>child_id = ''c2'', child_name = ''Sora'', child_class_id = ''bear''\<rparr>],
      generation_history = [],
      store_down = None,
      fresh_id = (\<lambda>n. ''gh-1''),
      requests = []\<rparr>"

lemmas data_eval =
  getCurrentUser_def getUserProfile_def updateUserProfile_def getChildren_def
  saveGenerationHistory_def users_select_single_def users_update_single_def
  children_select_def history_insert_def single_def failing_def received_def
  apply_update_def update_keys_def validClasses_def validTypes_def truthy_def Let_def

section \<open>Properties of the request gateway\<close>

lemma startsWith_Cons: "startsWith s (c # cs) = (\<exists>t. s = c # t \<and> startsWith t cs)"
  by (cases s) auto

lemma protected_not_root: "isProtectedRoute p \<Longrightarrow> p \<noteq> [] \<and> p \<noteq> ''/''"
  by (auto simp: isProtectedRoute_def protectedRoutes_def)

lemma public_not_protected: "isPublicRoute p \<Longrightarrow> \<not> isProtectedRoute p"
  by (auto simp: isPublicRoute_def publicRoutes_def isProtectedRoute_def protectedRoutes_def
      startsWith_Cons)

lemma auth_is_public: "isAuthRoute p \<Longrightarrow> isPublicRoute p"
  by (auto simp: isPublicRoute_def publicRoutes_def isAuthRoute_def authRoutes_def)

lemma auth_not_protected: "isAuthRoute p \<Longrightarrow> \<not> isProtectedRoute p"
  by (simp add: auth_is_public public_not_protected)

lemma createRedirect_login:
  "p \<noteq> [] \<Longrightarrow> p \<noteq> ''/'' \<Longrightarrow>
   createRedirect ''/login'' (Some p) =
     \<lparr>redirect_to = Some \<lparr>url_pathname = ''/login'', searchParams = [(''redirect'', p)]\<rparr>,
      cookies_set = [], cookies_deleted = []\<rparr>"
  by (simp add: createRedirect_def NextResponse_redirect_def)

lemma middleware_try_after_getSession:
  "getSession faults date_now svc = (Inl e, svc1) \<Longrightarrow>
   middleware_try faults date_now p svc = (Inl e, svc1)"
  by (simp add: middleware_try_def and_then_def)

lemma middleware_catch:
  assumes "\<not> skipsMiddleware p"
    and "middleware_try faults date_now p svc = (Inl e, svc1)"
    and "ConsoleError \<notin> set faults"
    and "if isProtectedRoute p then CreateRedirect ''/login'' (Some p) \<notin> set faults
         else Next \<notin> set faults"
  shows "middleware faults date_now p svc =
           (Inr (if isProtectedRoute p then createRedirect ''/login'' (Some p)
                 else NextResponse_next), svc1)"
  using assms by (simp add: middleware_def action_defs)

lemma middleware_no_throw:
  assumes "\<not> skipsMiddleware p"
    and "middleware_try faults date_now p svc = (Inr r, svc1)"
  shows "middleware faults date_now p svc = (Inr r, svc1)"
  using assms by (simp add: middleware_def action_defs)

lemma getSession_needsCleanup:
  assumes "fst (getSession faults date_now svc) = Inr sr" and "sr_session sr = None"
  shows "sr_needsCleanup sr =
           (\<not> ((case session_reply svc of
                   Rejected \<Rightarrow> False
                 | Resolved r \<Rightarrow> reply_error r = None \<and> reply_session r = None) \<and>
                \<not> getSession_throws faults date_now svc))"
proof -
  obtain out svc1 where t: "getSession_try faults date_now svc = (out, svc1)"
    by (cases "getSession_try faults date_now svc")
  show ?thesis
  proof (cases out)
    case (Inl e)
    then show ?thesis using assms t
      by (auto simp: getSession_def getSession_throws_def action_defs split: if_splits)
  next
    case (Inr sr')
    with assms t have eq: "sr' = sr" by (simp add: getSession_def try_catch_def)
    have nt: "\<not> getSession_throws faults date_now svc"
      using t Inr by (simp add: getSession_throws_def)
    have "sr_needsCleanup sr' =
           (\<not> (case session_reply svc of
                  Rejected \<Rightarrow> False
                | Resolved r \<Rightarrow> reply_error r = None \<and> reply_session r = None))"
      using t [unfolded Inr] assms(2) [folded eq]
      by (auto simp: getSession_try_def action_defs auth_getSession_def auth_refreshSession_def
          Let_def split: outcome.splits option.splits if_splits)
    then show ?thesis using nt eq by simp
  qed
qed


text \<open>
  Claim C1. For every path that one of the protected prefixes matches and that the bypass
  guard does not pass through, a request whose session validation yields no session is
  answered with a redirect to \<^verbatim>\<open>/login\<close> whose \<^verbatim>\<open>redirect\<close> parameter is the path; such a
  path is never the root. For the root as destination, \<^verbatim>\<open>createRedirect\<close> leaves the
  parameter out. This holds in the execution where no call throws, and in every
  execution where building that redirect and \<^verbatim>\<open>console.error\<close> do not throw, whatever
  else does.
\<close>

theorem protected_anonymous_redirects_to_login:
  assumes "isProtectedRoute p" and "\<not> skipsMiddleware p"
    and "case fst (getSession faults date_now svc) of
           Inl e \<Rightarrow> True | Inr sr \<Rightarrow> sr_session sr = None"
    and "CreateRedirect ''/login'' (Some p) \<notin> set faults" and "ConsoleError \<notin> set faults"
  shows "p \<noteq> ''/'' \<and>
         (\<exists>r. fst (middleware faults date_now p svc) = Inr r \<and>
              redirect_to r =
                Some \<lparr>url_pathname = ''/login'', searchParams = [(''redirect'', p)]\<rparr>) \<and>
         redirect_to (createRedirect ''/login'' (Some ''/'')) =
           Some \<lparr>url_pathname = ''/login'', searchParams = []\<rparr>"
proof -
  have nr: "p \<noteq> []" "p \<noteq> ''/''" using protected_not_root [OF assms(1)] by simp_all
  obtain res svc1 where gs: "getSession faults date_now svc = (res, svc1)"
    by (cases "getSession faults date_now svc")
  obtain out svc2 where mt: "middleware_try faults date_now p svc = (out, svc2)"
    by (cases "middleware_try faults date_now p svc")
  have "\<exists>r. fst (middleware faults date_now p svc) = Inr r \<and>
              redirect_to r =
                Some \<lparr>url_pathname = ''/login'', searchParams = [(''redirect'', p)]\<rparr>"
  proof (cases out)
    case (Inl e)
    then show ?thesis
      using middleware_catch [OF assms(2) mt [unfolded Inl] assms(5)] assms(1,4) nr
      by (simp add: createRedirect_login)
  next
    case (Inr r)
    from gs assms(3) obtain sr where sr: "res = Inr sr" "sr_session sr = None"
      using mt Inr by (cases res) (auto simp: middleware_try_def and_then_def)
    have "redirect_to r =
            Some \<lparr>url_pathname = ''/login'', searchParams = [(''redirect'', p)]\<rparr>"
      using mt Inr gs sr assms(1) nr
      by (auto simp: middleware_try_def action_defs createRedirect_login cookies_delete_def
          split: if_splits)
    then show ?thesis using middleware_no_throw [OF assms(2) mt [unfolded Inr]] by simp
  qed
  moreover have "redirect_to (createRedirect ''/login'' (Some ''/'')) =
           Some \<lparr>url_pathname = ''/login'', searchParams = []\<rparr>"
    by (simp add: createRedirect_def NextResponse_redirect_def)
  ultimately show ?thesis using nr by simp
qed

theorem protected_anonymous_redirects_to_login_witness:
  "isProtectedRoute ''/dashboard/today'' \<and> \<not> skipsMiddleware ''/dashboard/today'' \<and>
   fst (getSession [] 1700000000000 (service_answering None None)) =
     Inr \<lparr>sr_session = None, sr_response = NextResponse_next, sr_needsCleanup = False\<rparr> \<and>
   (\<exists>r. fst (middleware [] 1700000000000 ''/dashboard/today'' (service_answering None None)) =
           Inr r \<and>
        redirect_to r =
          Some \<lparr>url_pathname = ''/login'',
                searchParams = [(''redirect'', ''/dashboard/today'')]\<rparr>)"
proof -
  have h1: "isProtectedRoute ''/dashboard/today''" by (simp add: gateway_eval)
  have h2: "\<not> skipsMiddleware ''/dashboard/today''" by (simp add: gateway_eval)
  have g: "fst (getSession [] 1700000000000 (service_answering None None)) =
     Inr \<lparr>sr_session = None, sr_response = NextResponse_next, sr_needsCleanup = False\<rparr>"
    by (simp add: gateway_eval)
  have h3: "case fst (getSession [] 1700000000000 (service_answering None None)) of
           Inl e \<Rightarrow> True | Inr sr \<Rightarrow> sr_session sr = None"
    by (simp add: g)
  have h4: "CreateRedirect ''/login'' (Some ''/dashboard/today'') \<notin> set []"
    and h5: "ConsoleError \<notin> set []" by simp_all
  show ?thesis using h1 h2 g protected_anonymous_redirects_to_login [OF h1 h2 h3 h4 h5] by simp
qed

text \<open>
  Claim C3, as amended. For every path that \<^verbatim>\<open>/login\<close> or \<^verbatim>\<open>/register\<close> prefixes and that the
  bypass guard does not pass through, a request with a valid session, evaluated without
  an internal error, is answered with a redirect to \<^verbatim>\<open>/dashboard\<close> that carries no
  \<^verbatim>\<open>redirect\<close> parameter, whatever the rest of the path is.
\<close>

theorem auth_route_redirects_authenticated:
  assumes "isAuthRoute p" and "\<not> skipsMiddleware p"
    and "fst (getSession faults date_now svc) = Inr sr" and "sr_session sr = Some s"
    and "\<not> middleware_throws faults date_now p svc"
  shows "fst (middleware faults date_now p svc) =
           Inr \<lparr>redirect_to = Some \<lparr>url_pathname = ''/dashboard'', searchParams = []\<rparr>,
                cookies_set = [], cookies_deleted = []\<rparr>"
proof -
  obtain svc1 where gs: "getSession faults date_now svc = (Inr sr, svc1)"
    using assms(3) by (cases "getSession faults date_now svc") auto
  have np: "\<not> isProtectedRoute p" using assms(1) by (rule auth_not_protected)
  obtain out svc2 where mt: "middleware_try faults date_now p svc = (out, svc2)"
    by (cases "middleware_try faults date_now p svc")
  with assms(2,5) obtain r where r: "out = Inr r"
    by (cases out) (auto simp: middleware_throws_def)
  have "r = createRedirect ''/dashboard'' None"
    using mt r gs assms(1,4) np
    by (auto simp: middleware_try_def action_defs split: if_splits)
  then show ?thesis
    using middleware_no_throw [OF assms(2) mt [unfolded r]]
    by (simp add: createRedirect_def NextResponse_redirect_def)
qed

theorem auth_route_redirects_authenticated_witness:
  "isAuthRoute ''/register'' \<and> \<not> skipsMiddleware ''/register'' \<and>
   fst (getSession [] 1700000000000 (service_answering (Some live_session) None)) =
     Inr \<lparr>sr_session = Some live_session, sr_response = NextResponse_next,
          sr_needsCleanup = False\<rparr> \<and>
   \<not> middleware_throws [] 1700000000000 ''/register'' (service_answering (Some live_session) None) \<and>
   fst (middleware [] 1700000000000 ''/register'' (service_answering (Some live_session) None)) =
     Inr \<lparr>redirect_to = Some \<lparr>url_pathname = ''/dashboard'', searchParams = []\<rparr>,
          cookies_set = [], cookies_deleted = []\<rparr>"
proof -
  have h1: "isAuthRoute ''/register''" by (simp add: gateway_eval)
  have h2: "\<not> skipsMiddleware ''/register''" by (simp add: gateway_eval)
  have h3: "fst (getSession [] 1700000000000 (service_answering (Some live_session) None)) =
     Inr \<lparr>sr_session = Some live_session, sr_response = NextResponse_next,
          sr_needsCleanup = False\<rparr>" by (simp add: gateway_eval)
  have h4: "sr_session \<lparr>sr_session = Some live_session, sr_response = NextResponse_next,
          sr_needsCleanup = False\<rparr> = Some live_session" by simp
  have h5: "\<not> middleware_throws [] 1700000000000 ''/register''
              (service_answering (Some live_session) None)"
    by (simp add: gateway_eval)
  show ?thesis using h1 h2 h3 h5 auth_route_redirects_authenticated [OF h1 h2 h3 h4 h5] by simp
qed

text \<open>
  Claim C3 as stated fails on a path under \<^verbatim>\<open>/login\<close> that contains a dot: the bypass guard
  passes it through, valid session or not.
\<close>

theorem login_asset_path_passes_through:
  "isAuthRoute ''/login.css'' \<and>
   fst (getSession [] 1700000000000 (service_answering (Some live_session) None)) =
     Inr \<lparr>sr_session = Some live_session, sr_response = NextResponse_next,
          sr_needsCleanup = False\<rparr> \<and>
   fst (middleware [] 1700000000000 ''/login.css'' (service_answering (Some live_session) None)) =
     Inr NextResponse_next"
  by (simp add: gateway_eval)




text \<open>
  Claim C5, as amended. For a resolved session that carries a user and whose expiry is
  absent or at least 300 seconds after the current second, validation returns that
  session, asks for no cleanup and leaves the identity service as it was (no refresh
  call); a second validation right after it does the same. The two calls on this path,
  the continuation with the request headers and \<^verbatim>\<open>createServerClient\<close>, are taken not to
  throw.
\<close>

theorem validation_stable_without_refresh:
  assumes "session_reply svc = Resolved r" and "reply_error r = None"
    and "reply_session r = Some s" and "session_user s = Some u"
    and "case expires_at s of None \<Rightarrow> True | Some e \<Rightarrow> t1 div 1000 + 300 \<le> e"
    and "case expires_at s of None \<Rightarrow> True | Some e \<Rightarrow> t2 div 1000 + 300 \<le> e"
    and "NextWithRequest \<notin> set faults" and "CreateServerClient \<notin> set faults"
  shows "getSession faults t1 svc =
           (Inr \<lparr>sr_session = Some s,
                 sr_response = NextResponse_next\<lparr>cookies_set := reply_cookies r\<rparr>,
                 sr_needsCleanup = False\<rparr>, svc) \<and>
         getSession faults t2 (snd (getSession faults t1 svc)) =
           (Inr \<lparr>sr_session = Some s,
                 sr_response = NextResponse_next\<lparr>cookies_set := reply_cookies r\<rparr>,
                 sr_needsCleanup = False\<rparr>, svc)"
proof -
  have one: "getSession faults t svc =
      (Inr \<lparr>sr_session = Some s,
            sr_response = NextResponse_next\<lparr>cookies_set := reply_cookies r\<rparr>,
            sr_needsCleanup = False\<rparr>, svc)"
    if "case expires_at s of None \<Rightarrow> True | Some e \<Rightarrow> t div 1000 + 300 \<le> e" for t
    using that assms(1-4,7,8)
    by (auto simp: getSession_def getSession_try_def action_defs auth_getSession_def Let_def
        split: option.splits)
  show ?thesis
    by (simp add: one [OF assms(5)] one [OF assms(6)])
qed

theorem validation_stable_without_refresh_witness:
  "(case expires_at live_session of None \<Rightarrow> True
    | Some e \<Rightarrow> 1700000000000 div 1000 + 300 \<le> e) \<and>
   (case expires_at live_session of None \<Rightarrow> True
    | Some e \<Rightarrow> 1700000000001 div 1000 + 300 \<le> e) \<and>
   getSession [] 1700000000000 (service_answering (Some live_session) None) =
     (Inr \<lparr>sr_session = Some live_session,
           sr_response = NextResponse_next\<lparr>cookies_set := []\<rparr>,
           sr_needsCleanup = False\<rparr>,
      service_answering (Some live_session) None) \<and>
   getSession [] 1700000000001
       (snd (getSession [] 1700000000000 (service_answering (Some live_session) None))) =
     (Inr \<lparr>sr_session = Some live_session,
           sr_response = NextResponse_next\<lparr>cookies_set := []\<rparr>,
           sr_needsCleanup = False\<rparr>,
      service_answering (Some live_session) None)"
proof -
  let ?r = "\<lparr>reply_session = Some live_session, reply_error = None, reply_cookies = []\<rparr>"
  have h1: "session_reply (service_answering (Some live_session) None) = Resolved ?r" by simp
  have h2: "reply_error ?r = None" and h3: "reply_session ?r = Some live_session" by simp_all
  have h4: "session_user live_session = Some ''user-1''" by simp
  have h5: "case expires_at live_session of None \<Rightarrow> True
    | Some e \<Rightarrow> 1700000000000 div 1000 + 300 \<le> e" by simp
  have h6: "case expires_at live_session of None \<Rightarrow> True
    | Some e \<Rightarrow> 1700000000001 div 1000 + 300 \<le> e" by simp
  have h7: "NextWithRequest \<notin> set []" and h8: "CreateServerClient \<notin> set []" by simp_all
  have c: "reply_cookies ?r = []" by simp
  from h5 h6 validation_stable_without_refresh [OF h1 h2 h3 h4 h5 h6 h7 h8, unfolded c]
  show ?thesis by blast
qed

text \<open>
  Claim C5 as stated fails on a session that is far from expiry but carries no user:
  validation answers with no session and asks for cleanup.
\<close>

theorem userless_session_is_rejected:
  "(case expires_at userless_session of None \<Rightarrow> True
    | Some e \<Rightarrow> 1700000000000 div 1000 + 300 \<le> e) \<and>
   getSession [] 1700000000000 (service_answering (Some userless_session) None) =
     (Inr \<lparr>sr_session = None, sr_response = NextResponse_next, sr_needsCleanup = True\<rparr>,
      service_answering (Some userless_session) None)"
  by (simp add: gateway_eval)

text \<open>
  Claim C6, as amended. For every public path (the paths under \<^verbatim>\<open>/login\<close> and \<^verbatim>\<open>/register\<close>
  among them) that the bypass guard does not pass through, a request whose validation
  yields no session, evaluated without an error in the gateway's \<^verbatim>\<open>try\<close> block, is
  continued without redirect. Both token cookies are deleted on the response unless the
  service resolved with neither a session nor an error and nothing was thrown inside
  validation (the anonymous case), where nothing is deleted.
\<close>

theorem public_invalid_session_continues:
  assumes "isPublicRoute p" and "\<not> skipsMiddleware p"
    and "fst (getSession faults date_now svc) = Inr sr" and "sr_session sr = None"
    and "\<not> middleware_throws faults date_now p svc"
  shows "fst (middleware faults date_now p svc) =
           Inr (if (case session_reply svc of
                      Rejected \<Rightarrow> False
                    | Resolved r \<Rightarrow> reply_error r = None \<and> reply_session r = None) \<and>
                   \<not> getSession_throws faults date_now svc
                then NextResponse_next
                else \<lparr>redirect_to = None, cookies_set = [],
                      cookies_deleted = [''sb-access-token'', ''sb-refresh-token'']\<rparr>)"
proof -
  obtain svc1 where gs: "getSession faults date_now svc = (Inr sr, svc1)"
    using assms(3) by (cases "getSession faults date_now svc") auto
  have np: "\<not> isProtectedRoute p" using assms(1) by (rule public_not_protected)
  obtain out svc2 where mt: "middleware_try faults date_now p svc = (out, svc2)"
    by (cases "middleware_try faults date_now p svc")
  with assms(2,5) obtain r where r: "out = Inr r"
    by (cases out) (auto simp: middleware_throws_def)
  have "r = (if sr_needsCleanup sr
             then cookies_delete ''sb-refresh-token''
                    (cookies_delete ''sb-access-token'' NextResponse_next)
             else NextResponse_next)"
    using mt r gs assms(1,4) np
    by (auto simp: middleware_try_def action_defs split: if_splits)
  then show ?thesis
    using middleware_no_throw [OF assms(2) mt [unfolded r]]
    unfolding getSession_needsCleanup [OF assms(3,4)]
    by (simp add: cookies_delete_def NextResponse_next_def)
qed

theorem public_invalid_session_continues_witness:
  "isPublicRoute ''/auth/callback'' \<and> \<not> skipsMiddleware ''/auth/callback'' \<and>
   fst (getSession [] 1700000000000 (service_answering None (Some ''fetch failed''))) =
     Inr \<lparr>sr_session = None, sr_response = NextResponse_next, sr_needsCleanup = True\<rparr> \<and>
   \<not> middleware_throws [] 1700000000000 ''/auth/callback''
       (service_answering None (Some ''fetch failed'')) \<and>
   fst (middleware [] 1700000000000 ''/auth/callback''
          (service_answering None (Some ''fetch failed''))) =
     Inr \<lparr>redirect_to = None, cookies_set = [],
          cookies_deleted = [''sb-access-token'', ''sb-refresh-token'']\<rparr>"
proof -
  have h1: "isPublicRoute ''/auth/callback''" by (simp add: gateway_eval)
  have h2: "\<not> skipsMiddleware ''/auth/callback''" by (simp add: gateway_eval)
  have h3: "fst (getSession [] 1700000000000 (service_answering None (Some ''fetch failed''))) =
     Inr \<lparr>sr_session = None, sr_response = NextResponse_next, sr_needsCleanup = True\<rparr>"
    by (simp add: gateway_eval)
  have h4: "sr_session \<lparr>sr_session = None, sr_response = NextResponse_next,
                         sr_needsCleanup = True\<rparr> = None" by simp
  have h5: "\<not> middleware_throws [] 1700000000000 ''/auth/callback''
       (service_answering None (Some ''fetch failed''))" by (simp add: gateway_eval)
  show ?thesis using h1 h2 h3 h5 public_invalid_session_continues [OF h1 h2 h3 h4 h5] by simp
qed

text \<open>
  Claim C6 as stated fails in the anonymous case: the service resolves with no session
  and no error, validation does not ask for cleanup, and the response deletes no cookie.
\<close>

theorem anonymous_public_request_keeps_cookies:
  "isPublicRoute ''/login'' \<and> \<not> skipsMiddleware ''/login'' \<and>
   getSession [] 1700000000000 (service_answering None None) =
     (Inr \<lparr>sr_session = None, sr_response = NextResponse_next, sr_needsCleanup = False\<rparr>,
      service_answering None None) \<and>
   fst (middleware [] 1700000000000 ''/login'' (service_answering None None)) =
     Inr \<lparr>redirect_to = None, cookies_set = [], cookies_deleted = []\<rparr>"
  by (simp add: gateway_eval)

section \<open>Properties of the session context\<close>

lemma map_of_expire_cookie:
  "map_of (expire_cookie k jar) n = (if n = k then None else map_of jar n)"
  by (induction jar) (auto simp: expire_cookie_def)

text \<open>
  Claim C2, as amended. When the remote sign-out resolves without error, \<^verbatim>\<open>signOut\<close>
  succeeds, sets user and session to null and, in a browser, removes both token cookies
  and no other cookie. When the remote call resolves with an error or throws, \<^verbatim>\<open>signOut\<close>
  fails and leaves user, session and cookies as they were. In every execution the loading
  flag ends false.
\<close>

theorem signOut_clears_after_remote_success:
  "(remote = SignOutResolves None \<longrightarrow>
      fst (signOut remote ctx) = Inr () \<and>
      ctx_user (snd (signOut remote ctx)) = None \<and>
      ctx_session (snd (signOut remote ctx)) = None \<and>
      (case document_cookie ctx of
         None \<Rightarrow> document_cookie (snd (signOut remote ctx)) = None
       | Some jar \<Rightarrow>
           (\<exists>jar'. document_cookie (snd (signOut remote ctx)) = Some jar' \<and>
              (\<forall>n. map_of jar' n =
                 (if n = ''sb-access-token'' \<or> n = ''sb-refresh-token'' then None
                  else map_of jar n))))) \<and>
   (remote \<noteq> SignOutResolves None \<longrightarrow>
      isl (fst (signOut remote ctx)) \<and>
      ctx_user (snd (signOut remote ctx)) = ctx_user ctx \<and>
      ctx_session (snd (signOut remote ctx)) = ctx_session ctx \<and>
      document_cookie (snd (signOut remote ctx)) = document_cookie ctx) \<and>
   \<not> ctx_loading (snd (signOut remote ctx))"
proof (cases remote)
  case (SignOutThrows e)
  then show ?thesis by (simp add: signOut_def)
next
  case (SignOutResolves r)
  show ?thesis
  proof (cases r)
    case None
    with SignOutResolves show ?thesis
      by (cases "document_cookie ctx") (auto simp: signOut_def map_of_expire_cookie)
  next
    case (Some e)
    with SignOutResolves show ?thesis by (simp add: signOut_def)
  qed
qed

theorem signOut_clears_after_remote_success_witness:
  "fst (signOut (SignOutResolves None) signed_in_context) = Inr () \<and>
   ctx_user (snd (signOut (SignOutResolves None) signed_in_context)) = None \<and>
   ctx_session (snd (signOut (SignOutResolves None) signed_in_context)) = None \<and>
   \<not> ctx_loading (snd (signOut (SignOutResolves None) signed_in_context)) \<and>
   isl (fst (signOut (SignOutThrows (PlainError ''Failed to fetch'')) signed_in_context)) \<and>
   ctx_user (snd (signOut (SignOutThrows (PlainError ''Failed to fetch'')) signed_in_context)) =
     Some ''user-1''"
  using signOut_clears_after_remote_success [of "SignOutResolves None" signed_in_context]
    signOut_clears_after_remote_success [of "SignOutThrows (PlainError ''Failed to fetch'')" signed_in_context]
  by simp

text \<open>
  Claim C2 as stated fails when the remote sign-out resolves with an error: \<^verbatim>\<open>signOut\<close>
  returns the failure before it clears anything, and the context is as it was.
\<close>

theorem signOut_remote_error_keeps_state:
  "signOut (SignOutResolves (Some (AuthError ''Service unavailable'' (Some 503)))) signed_in_context =
     (Inl \<lparr>failure_message = ''Service unavailable'', failure_code = StatusCode 503\<rparr>,
      signed_in_context)"
  by (simp add: signOut_def handleAuthError_def)

section \<open>Properties of the data access layer\<close>

lemma getCurrentUser_backend: "getCurrentUser b = (u, b1) \<Longrightarrow> b1 = received AuthGetUser b"
  by (auto simp: getCurrentUser_def)

lemma getUserProfile_found:
  assumes "getUserProfile uid b = (Inr (Some p), b2)"
  shows "b2 = received (UsersSelect uid) (received AuthGetUser b)"
  using assms
  by (auto simp: getUserProfile_def getCurrentUser_def users_select_single_def
      split: if_splits option.splits reply.splits prod.splits)


text \<open>
  Claim C7, as amended. For an authenticated caller whose profile has a non-empty assigned
  class, \<^verbatim>\<open>getChildren\<close> with a non-empty class id other than that class throws a
  \<open>PermissionError\<close>; the only requests the backend has received are the two
  authentication checks and the read of the caller's profile, so the children table is
  not read, and nothing else of the backend has changed.
\<close>

theorem getChildren_rejects_foreign_class:
  assumes "getCurrentUser b = (Some caller, b1)"
    and "getUserProfile caller b1 = (Inr (Some profile), b2)"
    and "u_assigned_class profile = Some own" and "own \<noteq> []"
    and "classId \<noteq> []" and "classId \<noteq> own"
  shows "getChildren (Some classId) b =
           (Inl (PermissionError ClassNotAccessible),
            b\<lparr>requests := requests b @ [AuthGetUser, AuthGetUser, UsersSelect caller]\<rparr>)"
proof -
  have b1: "b1 = received AuthGetUser b" using assms(1) by (rule getCurrentUser_backend)
  have b2: "b2 = received (UsersSelect caller) (received AuthGetUser b1)"
    using assms(2) by (rule getUserProfile_found)
  have "getChildren (Some classId) b = (Inl (PermissionError ClassNotAccessible), b2)"
    using assms by (simp add: getChildren_def truthy_def)
  then show ?thesis by (simp add: b1 b2 received_def)
qed

theorem getChildren_rejects_foreign_class_witness:
  "getCurrentUser nursery = (Some ''user-1'', received AuthGetUser nursery) \<and>
   getUserProfile ''user-1'' (received AuthGetUser nursery) =
     (Inr (Some koala_teacher),
      received (UsersSelect ''user-1'') (received AuthGetUser (received AuthGetUser nursery))) \<and>
   getChildren (Some ''bear'') nursery =
     (Inl (PermissionError ClassNotAccessible),
      nursery\<lparr>requests := [AuthGetUser, AuthGetUser, UsersSelect ''user-1'']\<rparr>)"
proof -
  have h1: "getCurrentUser nursery = (Some ''user-1'', received AuthGetUser nursery)"
    by (simp add: data_eval)
  have h2: "getUserProfile ''user-1'' (received AuthGetUser nursery) =
     (Inr (Some koala_teacher),
      received (UsersSelect ''user-1'') (received AuthGetUser (received AuthGetUser nursery)))"
    by (simp add: data_eval)
  have h3: "u_assigned_class koala_teacher = Some ''koala''" by simp
  have h4: "''koala'' \<noteq> []" "''bear'' \<noteq> []" "''bear'' \<noteq> ''koala''" by simp_all
  show ?thesis using h1 h2 getChildren_rejects_foreign_class [OF h1 h2 h3 h4] by simp
qed

text \<open>
  Claim C7 as stated fails for the empty string as class id: it differs from the
  caller's class, yet the call reads the children of the caller's own class.
\<close>

theorem getChildren_empty_class_reads_own_class:
  "getChildren (Some []) nursery =
     (Inr [\<lparr>child_id = ''c1'', child_name = ''Haru'', child_class_id = ''koala''\<rparr>],
      nursery\<lparr>requests := [AuthGetUser, AuthGetUser, UsersSelect ''user-1'',
                            ChildrenSelect (Some ''koala'')]\<rparr>)"
  by (simp add: data_eval)

text \<open>
  Claim C8. For every record whose type is not one of \<^verbatim>\<open>email\<close>, \<^verbatim>\<open>diary\<close>, \<^verbatim>\<open>record\<close>,
  \<^verbatim>\<open>saveGenerationHistory\<close> throws a \<open>DatabaseError\<close> of the input validation (missing
  fields, or invalid type) and leaves the backend exactly as it was: no insert, and no
  request at all.
\<close>

theorem saveGenerationHistory_rejects_invalid_type:
  assumes "gh_type d \<notin> {''email'', ''diary'', ''record''}"
  shows "saveGenerationHistory now d b =
           (Inl (DatabaseError
                   (if gh_user_id d = [] \<or> gh_type d = [] \<or> gh_input d = [] \<or> gh_output d = []
                    then RequiredFieldsMissing else InvalidGenerationType) None), b)"
  using assms by (simp add: saveGenerationHistory_def validTypes_def)

theorem saveGenerationHistory_rejects_invalid_type_witness:
  "''invalid-type'' \<notin> {''email'', ''diary'', ''record''} \<and>
   saveGenerationHistory ''2024-05-01T09:00:00.000Z''
     \<lparr>gh_user_id = ''user-1'', gh_type = ''invalid-type'', gh_input = ''Test input'',
      gh_output = ''Test output'', gh_model_used = None, gh_tokens_used = None\<rparr> nursery =
     (Inl (DatabaseError InvalidGenerationType None), nursery)"
proof -
  have h: "gh_type \<lparr>gh_user_id = ''user-1'', gh_type = ''invalid-type'', gh_input = ''Test input'',
      gh_output = ''Test output'', gh_model_used = None, gh_tokens_used = None\<rparr>
      \<notin> {''email'', ''diary'', ''record''}" by simp
  show ?thesis using saveGenerationHistory_rejects_invalid_type [OF h, of "''2024-05-01T09:00:00.000Z''" nursery] by simp
qed






end
